theory Spec2Isabelle
  imports Complex_Main "HOL-Library.Sublist"
begin

section \<open>JavaScript values, objects and strings\<close>

text \<open>
  The service is a Node.js program (\<^verbatim>\<open>src/server.js\<close>; the second source file is a
  variant with the same helper functions). JavaScript values are a datatype, objects are
  maps from property names to values, and strings are lists of characters; a letter
  outside ASCII is written as its UTF-8 bytes. Nothing below depends on the length of a
  string literal, only on equality, prefixes, suffixes and concatenation.
\<close>

datatype jsval =
    JUndefined
  | JNull
  | JBool bool
  | JNum real
  | JStr string
  | JArr "jsval list"
  | JObj "(string \<times> jsval) list"

type_synonym jsobj = "string \<rightharpoonup> jsval"

text \<open>Truthiness, as \<^verbatim>\<open>!v\<close>, \<^verbatim>\<open>v && ...\<close> and \<^verbatim>\<open>v || ...\<close> test it.\<close>

fun truthy :: "jsval \<Rightarrow> bool" where
  "truthy JUndefined = False"
| "truthy JNull = False"
| "truthy (JBool b) = b"
| "truthy (JNum r) = (r \<noteq> 0)"
| "truthy (JStr s) = (s \<noteq> [])"
| "truthy (JArr vs) = True"
| "truthy (JObj kvs) = True"

text \<open>Reading a property: an absent key reads as \<^verbatim>\<open>undefined\<close>.\<close>

definition get_prop :: "jsobj \<Rightarrow> string \<Rightarrow> jsval" where
  "get_prop obj k = (case obj k of None \<Rightarrow> JUndefined | Some v \<Rightarrow> v)"

text \<open>\<^verbatim>\<open>a || b\<close> on values.\<close>

definition js_or :: "jsval \<Rightarrow> jsval \<Rightarrow> jsval" where
  "js_or a b = (if truthy a then a else b)"

text \<open>\<^verbatim>\<open>s.endsWith(suf)\<close>.\<close>

definition endsWith :: "string \<Rightarrow> string \<Rightarrow> bool" where
  "endsWith s suf = (length suf \<le> length s \<and> drop (length s - length suf) s = suf)"

text \<open>
  \<^verbatim>\<open>s.replace(pat, rep)\<close> with a string pattern: only the first occurrence of
  \<open>pat\<close>, scanning from the left, is replaced.
\<close>

fun replace :: "string \<Rightarrow> string \<Rightarrow> string \<Rightarrow> string" where
  "replace [] pat rep = (if pat = [] then rep else [])"
| "replace (c # cs) pat rep =
     (if prefix pat (c # cs) then rep @ drop (length pat) (c # cs)
      else c # replace cs pat rep)"

text \<open>\<^verbatim>\<open>xs.join(sep)\<close> on an array of strings.\<close>

fun join :: "string list \<Rightarrow> string \<Rightarrow> string" where
  "join [] sep = []"
| "join [x] sep = x"
| "join (x # y # ys) sep = x @ sep @ join (y # ys) sep"

text \<open>Decimal rendering of a number inside a template literal (HTTP status codes).\<close>

fun showNat :: "nat \<Rightarrow> string" where
  "showNat n =
     (if n < 10 then [char_of (48 + n)]
      else showNat (n div 10) @ [char_of (48 + n mod 10)])"

declare showNat.simps [simp del]

text \<open>A thrown \<^verbatim>\<open>Error\<close> object, by its message.\<close>

datatype error = Error string

fun message :: "error \<Rightarrow> string" where
  "message (Error m) = m"

text \<open>Letters outside ASCII that the messages of the program use, as UTF-8.\<close>

definition a_tilde :: string where "a_tilde = [CHR 0xC3, CHR 0xA3]"
definition a_acute :: string where "a_acute = [CHR 0xC3, CHR 0xA1]"
definition c_cedil :: string where "c_cedil = [CHR 0xC3, CHR 0xA7]"
definition e_acute :: string where "e_acute = [CHR 0xC3, CHR 0xA9]"
definition e_circ :: string where "e_circ = [CHR 0xC3, CHR 0xAA]"
definition i_acute :: string where "i_acute = [CHR 0xC3, CHR 0xAD]"

section \<open>The job-submission request\<close>

text \<open>
  \<^verbatim>\<open>startTranscription\<close> builds the request object in two steps: the object literal,
  whose last entry spreads the caller's options over the defaults, and the adjustment
  for a concrete language.
\<close>

definition request_literal :: "string \<Rightarrow> jsobj \<Rightarrow> jsobj" where
  "request_literal audioUrl options =
     [ ''audio_url'' \<mapsto> JStr audioUrl,
       ''language_detection'' \<mapsto>
          JBool (\<not> truthy (get_prop options ''language'')
                 \<or> get_prop options ''language'' = JStr ''auto''),
       ''punctuate'' \<mapsto> JBool True,
       ''format_text'' \<mapsto> JBool True ] ++ options"

definition transcriptRequest :: "string \<Rightarrow> jsobj \<Rightarrow> jsobj" where
  "transcriptRequest audioUrl options =
     (let req = request_literal audioUrl options in
      if truthy (get_prop options ''language'')
         \<and> get_prop options ''language'' \<noteq> JStr ''auto''
      then (req(''language_code'' \<mapsto> get_prop options ''language''))
             (''language_detection'' := None)
      else req)"

section \<open>The world outside the program\<close>

text \<open>
  Files are a map from paths to entries; an entry holds its bytes and whether the
  operating system lets the process delete it. \<^verbatim>\<open>stats.size\<close> is the length of the
  bytes.
\<close>

type_synonym path = string

record entry =
  f_content :: string
  f_removable :: bool

type_synonym fs = "path \<rightharpoonup> entry"

text \<open>
  The encoder command that the fluent-ffmpeg builder has assembled when
  \<^verbatim>\<open>command.save(outputPath)\<close> runs.
\<close>

record command =
  c_input :: path
  c_audioFrequency :: nat
  c_audioChannels :: nat
  c_audioCodec :: string
  c_audioBitrate :: "string option"
  c_format :: string
  c_output :: path

text \<open>
  What the program does to the outside, in the order it happens. \<open>CleanupFile\<close> marks
  an invocation of \<^verbatim>\<open>cleanupFile\<close> with its argument (\<open>None\<close> is \<^verbatim>\<open>null\<close> or
  \<^verbatim>\<open>undefined\<close>). Console output is diagnostic and is left out, except for the
  failure that \<^verbatim>\<open>cleanupFile\<close> logs: logging is all that its handler does.
\<close>

datatype effect =
    Encode command
  | Fetch_upload string
  | Fetch_transcript jsobj
  | Fetch_status string
  | Timeout nat
  | CleanupFile "path option"
  | Unlink path
  | Console_error string path
  | Respond nat "(string \<times> jsval) list"

record world =
  files :: fs
  trace :: "effect list"

definition emit :: "effect \<Rightarrow> world \<Rightarrow> world" where
  "emit e w = w\<lparr>trace := trace w @ [e]\<rparr>"

text \<open>
  The outcome of an \<^verbatim>\<open>await fetch(...)\<close> followed by reading the body: the promise
  chain rejects, or the response is not \<^verbatim>\<open>ok\<close> (status code and body text), or the
  JSON body is delivered.
\<close>

datatype 'a fetch_result =
    Rejected error
  | Not_ok nat string
  | Ok_json 'a

text \<open>
  The body of a job-status response, by the fields the program reads. An absent
  \<^verbatim>\<open>error\<close> field is \<open>None\<close> and renders as \<^verbatim>\<open>undefined\<close> in a template literal.
\<close>

record transcript =
  t_status :: string
  t_error :: "string option"
  t_text :: jsval
  t_confidence :: jsval
  t_language_code :: jsval
  t_words :: jsval
  t_utterances :: jsval

text \<open>
  Everything the program is linked against or talks to, as parameters: the process
  environment, the encoder binary, the vendor's three endpoints (the status endpoint
  answers the \<open>n\<close>-th request for a job), Node's \<^verbatim>\<open>path\<close> module and
  \<^verbatim>\<open>String.prototype.toLowerCase\<close>, the video library and the clock.
  \<open>libmp3lame_throws\<close> says whether the builder call \<^verbatim>\<open>audioCodec('libmp3lame')\<close>
  raises, which is what the \<^verbatim>\<open>try\<close> around the MP3 settings guards against.
\<close>

record env =
  api_key_var :: "string option"
  libmp3lame_throws :: bool
  encoder :: "command \<Rightarrow> fs \<Rightarrow> error option \<times> fs"
  vendor_upload :: "string \<Rightarrow> string fetch_result"
  vendor_transcript :: "jsobj \<Rightarrow> string fetch_result"
  vendor_status :: "string \<Rightarrow> nat \<Rightarrow> transcript fetch_result"
  path_extname :: "string \<Rightarrow> string"
  path_basename :: "string \<Rightarrow> string"
  path_basename_ext :: "string \<Rightarrow> string \<Rightarrow> string"
  path_join :: "string \<Rightarrow> string \<Rightarrow> string"
  toLowerCase :: "string \<Rightarrow> string"
  play_validate :: "jsval \<Rightarrow> error + jsval"
  acquire :: "jsval \<Rightarrow> path \<Rightarrow> fs \<Rightarrow> error option \<times> fs"
  date_now :: "nat \<Rightarrow> nat"

text \<open>
  \<^verbatim>\<open>const ASSEMBLYAI_API_KEY = process.env.ASSEMBLYAI_API_KEY || 'sua-chave-aqui'\<close>:
  an unset or empty variable gives the placeholder.
\<close>

definition ASSEMBLYAI_API_KEY :: "env \<Rightarrow> string" where
  "ASSEMBLYAI_API_KEY env =
     (case api_key_var env of
        None \<Rightarrow> ''sua-chave-aqui''
      | Some k \<Rightarrow> if k = [] then ''sua-chave-aqui'' else k)"

section \<open>File helpers\<close>

text \<open>
  \<^verbatim>\<open>fs.unlinkSync\<close> raises when the path is missing or the entry cannot be removed.
  The texts of errors raised by Node itself are not in the source; they are rendered as
  a code and the path.
\<close>

definition unlinkSync :: "path \<Rightarrow> world \<Rightarrow> error option \<times> world" where
  "unlinkSync p w =
     (case files w p of
        None \<Rightarrow> (Some (Error (''ENOENT: '' @ p)), w)
      | Some f \<Rightarrow>
          if f_removable f
          then (None, emit (Unlink p) (w\<lparr>files := (files w)(p := None)\<rparr>))
          else (Some (Error (''EPERM: '' @ p)), w))"

text \<open>
  \<^verbatim>\<open>cleanupFile\<close>. The first component of the result is the exception that escapes
  the function, if any. \<^verbatim>\<open>fs.existsSync\<close> answers \<^verbatim>\<open>false\<close> for \<^verbatim>\<open>null\<close> and
  \<^verbatim>\<open>undefined\<close> and never raises.
\<close>

definition cleanupFile :: "path option \<Rightarrow> world \<Rightarrow> error option \<times> world" where
  "cleanupFile filePath w =
     (let w0 = emit (CleanupFile filePath) w in
      case filePath of
        None \<Rightarrow> (None, w0)
      | Some p \<Rightarrow>
          if files w0 p \<noteq> None
          then (case unlinkSync p w0 of
                  (None, w1) \<Rightarrow> (None, w1)
                | (Some e, w1) \<Rightarrow> (None, emit (Console_error (message e) p) w1))
          else (None, w0))"

record file_info =
  info_size :: nat
  info_extension :: string
  info_name :: string

definition allowedExtensions :: "string list" where
  "allowedExtensions =
     [''.mp4'', ''.avi'', ''.mov'', ''.mkv'', ''.webm'',
      ''.mp3'', ''.wav'', ''.m4a'', ''.aac'', ''.flac'']"

definition msg_not_found :: string where
  "msg_not_found = ''Arquivo n'' @ a_tilde @ ''o encontrado''"

definition msg_empty :: string where
  "msg_empty = ''Arquivo est'' @ a_acute @ '' vazio''"

definition msg_unsupported :: "string \<Rightarrow> string" where
  "msg_unsupported extension =
     ''Formato n'' @ a_tilde @ ''o suportado: '' @ extension
       @ ''. Formatos aceitos: '' @ join allowedExtensions '', ''"

text \<open>\<^verbatim>\<open>validateMediaFile\<close>: \<open>Inl\<close> is the rejection of the promise.\<close>

definition validateMediaFile :: "env \<Rightarrow> path \<Rightarrow> string \<Rightarrow> world \<Rightarrow> error + file_info" where
  "validateMediaFile env filePath originalName w =
     (case files w filePath of
        None \<Rightarrow> Inl (Error msg_not_found)
      | Some stats \<Rightarrow>
          if length (f_content stats) = 0 then Inl (Error msg_empty)
          else
            let extension = toLowerCase env (path_extname env originalName) in
            if extension \<notin> set allowedExtensions
            then Inl (Error (msg_unsupported extension))
            else Inr \<lparr>info_size = length (f_content stats),
                      info_extension = extension,
                      info_name = originalName\<rparr>)"

section \<open>Conversion to audio\<close>

text \<open>
  The command that \<^verbatim>\<open>convertVideoToAudio\<close> assembles before \<^verbatim>\<open>save\<close>: 16 kHz, one
  channel, and PCM in a WAV container when the output path ends in \<^verbatim>\<open>.wav\<close>,
  otherwise MP3 at 64k (or PCM again when the MP3 settings raise).
\<close>

definition build_command :: "env \<Rightarrow> path \<Rightarrow> path \<Rightarrow> command" where
  "build_command env inputPath outputPath =
     (let isWav = endsWith outputPath ''.wav'';
          base = \<lparr>c_input = inputPath, c_audioFrequency = 16000, c_audioChannels = 1,
                  c_audioCodec = [], c_audioBitrate = None, c_format = [],
                  c_output = outputPath\<rparr>
      in if isWav then base\<lparr>c_audioCodec := ''pcm_s16le'', c_format := ''wav''\<rparr>
         else if \<not> libmp3lame_throws env
         then base\<lparr>c_audioCodec := ''libmp3lame'', c_audioBitrate := Some ''64k'',
                   c_format := ''mp3''\<rparr>
         else base\<lparr>c_audioCodec := ''pcm_s16le'', c_format := ''wav''\<rparr>)"

text \<open>
  \<^verbatim>\<open>command.save(outputPath)\<close> runs the encoder once: it ends with the \<^verbatim>\<open>end\<close> event
  (\<open>None\<close>) or with the \<^verbatim>\<open>error\<close> event, and leaves the files as the encoder left them.
\<close>

definition save :: "env \<Rightarrow> command \<Rightarrow> world \<Rightarrow> error option \<times> world" where
  "save env cmd w =
     (case encoder env cmd (files w) of
        (outcome, fs') \<Rightarrow> (outcome, emit (Encode cmd) (w\<lparr>files := fs'\<rparr>)))"

text \<open>The number of positions at which \<open>pat\<close> occurs in a string.\<close>

fun occurrences :: "string \<Rightarrow> string \<Rightarrow> nat" where
  "occurrences pat [] = 0"
| "occurrences pat (c # cs) = (if prefix pat (c # cs) then 1 else 0) + occurrences pat cs"

text \<open>
  \<^verbatim>\<open>convertVideoToAudio\<close>. \<open>Inr\<close> is the path the promise resolves with, \<open>Inl\<close> the
  error it rejects with. The \<^verbatim>\<open>error\<close> handler calls the function again on
  \<^verbatim>\<open>outputPath.replace('.mp3', '.wav')\<close> and passes that promise's outcome through.
\<close>

function convertVideoToAudio :: "env \<Rightarrow> path \<Rightarrow> path \<Rightarrow> world \<Rightarrow> (error + path) \<times> world" where
  "convertVideoToAudio env inputPath outputPath w =
     (let isWav = endsWith outputPath ''.wav'' in
      case save env (build_command env inputPath outputPath) w of
        (None, w') \<Rightarrow> (Inr outputPath, w')
      | (Some err, w') \<Rightarrow>
          if \<not> isWav \<and> endsWith outputPath ''.mp3''
          then convertVideoToAudio env inputPath (replace outputPath ''.mp3'' ''.wav'') w'
          else (Inl err, w'))"
  by pat_completeness auto

text \<open>
  The recursion ends: each retry removes one occurrence of \<^verbatim>\<open>.mp3\<close> from the output
  path and creates none.
\<close>

lemma endsWith_suffix: "endsWith s suf = suffix suf s"
proof
  assume "endsWith s suf"
  then have "s = take (length s - length suf) s @ suf"
    by (metis append_take_drop_id endsWith_def)
  then show "suffix suf s" by (metis suffixI)
next
  assume "suffix suf s"
  then obtain pre where "s = pre @ suf" by (auto simp: suffix_def)
  then show "endsWith s suf" by (simp add: endsWith_def)
qed

lemma mp3_tail: "prefix ''mp3'' (replace cs ''.mp3'' ''.wav'') \<Longrightarrow> prefix ''mp3'' cs"
proof (cases cs)
  case Nil then show "prefix ''mp3'' (replace cs ''.mp3'' ''.wav'') \<Longrightarrow> ?thesis" by simp
next
  case c1: (Cons a as)
  assume p: "prefix ''mp3'' (replace cs ''.mp3'' ''.wav'')"
  show ?thesis
  proof (cases as)
    case Nil then show ?thesis using p c1 by (simp split: if_splits)
  next
    case c2: (Cons b bs)
    show ?thesis
    proof (cases bs)
      case Nil then show ?thesis using p c1 c2 by (simp split: if_splits)
    next
      case (Cons d ds)
      then show ?thesis using p c1 c2 by (simp split: if_splits)
    qed
  qed
qed

lemma occ_replace:
  "occurrences ''.mp3'' s \<noteq> 0 \<Longrightarrow>
   occurrences ''.mp3'' (replace s ''.mp3'' ''.wav'') < occurrences ''.mp3'' s"
proof (induction s)
  case Nil then show ?case by simp
next
  case (Cons c cs)
  show ?case
  proof (cases "prefix ''.mp3'' (c # cs)")
    case True
    then obtain rest where r: "c # cs = ''.mp3'' @ rest" by (auto simp: prefix_def)
    have 1: "replace (''.mp3'' @ rest) ''.mp3'' ''.wav'' = ''.wav'' @ rest" by simp
    have 2: "occurrences ''.mp3'' (''.mp3'' @ rest) = Suc (occurrences ''.mp3'' rest)" by simp
    have 3: "occurrences ''.mp3'' (''.wav'' @ rest) = occurrences ''.mp3'' rest" by simp
    show ?thesis unfolding r 1 2 3 by simp
  next
    case False
    then have nz: "occurrences ''.mp3'' cs \<noteq> 0" using Cons.prems by (auto split: if_splits)
    have np: "\<not> prefix ''.mp3'' (c # replace cs ''.mp3'' ''.wav'')"
      using False mp3_tail[of cs] by auto
    have r: "replace (c # cs) ''.mp3'' ''.wav'' = c # replace cs ''.mp3'' ''.wav''"
      using False by (simp only: replace.simps if_False)
    have o1: "occurrences ''.mp3'' (c # cs) = occurrences ''.mp3'' cs"
      using False by (simp only: occurrences.simps if_False add_0)
    have o2: "occurrences ''.mp3'' (c # replace cs ''.mp3'' ''.wav'')
                = occurrences ''.mp3'' (replace cs ''.mp3'' ''.wav'')"
      using np by (simp only: occurrences.simps if_False add_0)
    show ?thesis unfolding r o1 o2 by (rule Cons.IH[OF nz])
  qed
qed

lemma occ_append_mp3: "occurrences ''.mp3'' (pre @ ''.mp3'') \<noteq> 0"
  by (induction pre) simp_all

lemma endsWith_occ: "endsWith s ''.mp3'' \<Longrightarrow> occurrences ''.mp3'' s \<noteq> 0"
  unfolding endsWith_suffix suffix_def using occ_append_mp3 by auto

termination convertVideoToAudio
proof (relation "measure (\<lambda>(env, inputPath, outputPath, w). occurrences ''.mp3'' outputPath)")
  show "wf (measure (\<lambda>(env, inputPath, outputPath, w). occurrences ''.mp3'' outputPath))"
    by simp
next
  fix env :: env and inputPath outputPath :: path and w :: world and isWav
  assume "\<not> isWav \<and> endsWith outputPath ''.mp3''"
  then have "occurrences ''.mp3'' (replace outputPath ''.mp3'' ''.wav'')
               < occurrences ''.mp3'' outputPath"
    by (intro occ_replace endsWith_occ) simp
  then show "\<And>w'. ((env, inputPath, replace outputPath ''.mp3'' ''.wav'', w'), env, inputPath, outputPath, w)
       \<in> measure (\<lambda>(env, inputPath, outputPath, w). occurrences ''.mp3'' outputPath)"
    by simp
qed

declare convertVideoToAudio.simps [simp del]

section \<open>The transcription client\<close>

text \<open>
  \<^verbatim>\<open>uploadToAssemblyAI\<close>. \<^verbatim>\<open>fs.readFileSync\<close> raises on a missing file, before any
  request is made. The \<^verbatim>\<open>catch\<close> blocks of the client log and rethrow the same error.
\<close>

definition uploadToAssemblyAI :: "env \<Rightarrow> path \<Rightarrow> world \<Rightarrow> (error + string) \<times> world" where
  "uploadToAssemblyAI env filePath w =
     (case files w filePath of
        None \<Rightarrow> (Inl (Error (''ENOENT: '' @ filePath)), w)
      | Some f \<Rightarrow>
          let fileData = f_content f;
              w1 = emit (Fetch_upload fileData) w
          in case vendor_upload env fileData of
               Rejected e \<Rightarrow> (Inl e, w1)
             | Not_ok status errorText \<Rightarrow>
                 (Inl (Error (''Erro no upload: '' @ showNat status @ '' - '' @ errorText)), w1)
             | Ok_json upload_url \<Rightarrow> (Inr upload_url, w1))"

text \<open>\<^verbatim>\<open>startTranscription\<close>: the request object is sent as the JSON body.\<close>

definition startTranscription :: "env \<Rightarrow> string \<Rightarrow> jsobj \<Rightarrow> world \<Rightarrow> (error + string) \<times> world" where
  "startTranscription env audioUrl options w =
     (let request = transcriptRequest audioUrl options;
          w1 = emit (Fetch_transcript request) w
      in case vendor_transcript env request of
           Rejected e \<Rightarrow> (Inl e, w1)
         | Not_ok status errorText \<Rightarrow>
             (Inl (Error (''Erro ao iniciar transcri'' @ c_cedil @ a_tilde @ ''o: ''
                           @ showNat status @ '' - '' @ errorText)), w1)
         | Ok_json transcript_id \<Rightarrow> (Inr transcript_id, w1))"

definition msg_job_error :: "string option \<Rightarrow> string" where
  "msg_job_error err =
     ''Erro na transcri'' @ c_cedil @ a_tilde @ ''o: ''
       @ (case err of None \<Rightarrow> ''undefined'' | Some m \<Rightarrow> m)"

text \<open>
  The \<^verbatim>\<open>while (true)\<close> loop of \<^verbatim>\<open>waitForTranscription\<close>; \<open>n\<close> counts the status
  requests already made. The loop has no bound in the source, so the function is
  partial: \<open>None\<close> is a call that never returns.
\<close>

partial_function (option) waitForTranscription_loop ::
  "env \<Rightarrow> string \<Rightarrow> nat \<Rightarrow> world \<Rightarrow> ((error + transcript) \<times> world) option" where
  "waitForTranscription_loop env transcriptId n w =
     (let w1 = emit (Fetch_status transcriptId) w in
      case vendor_status env transcriptId n of
        Rejected e \<Rightarrow> Some (Inl e, w1)
      | Not_ok status errorText \<Rightarrow>
          Some (Inl (Error (''Erro ao verificar status: '' @ showNat status
                             @ '' - '' @ errorText)), w1)
      | Ok_json data \<Rightarrow>
          if t_status data = ''completed'' then Some (Inr data, w1)
          else if t_status data = ''error'' then Some (Inl (Error (msg_job_error (t_error data))), w1)
          else waitForTranscription_loop env transcriptId (Suc n) (emit (Timeout 3000) w1))"

definition waitForTranscription ::
  "env \<Rightarrow> string \<Rightarrow> world \<Rightarrow> ((error + transcript) \<times> world) option" where
  "waitForTranscription env transcriptId w = waitForTranscription_loop env transcriptId 0 w"

text \<open>The text of the placeholder result, for the base name of the file.\<close>

definition placeholder_text :: "string \<Rightarrow> string" where
  "placeholder_text name =
     ''Transcri'' @ c_cedil @ a_tilde @ ''o simulada usando AssemblyAI para o arquivo: ''
       @ name @ [CHR 0x0A, CHR 0x0A] @ ''Esta '' @ e_acute @ '' uma demonstra'' @ c_cedil @ a_tilde
       @ ''o. Para funcionar de verdade, voc'' @ e_circ
       @ '' precisa configurar sua chave da AssemblyAI nas vari'' @ a_acute
       @ ''veis de ambiente.''"

text \<open>\<^verbatim>\<open>transcribeAudio\<close>; the result objects are those of \<^verbatim>\<open>src/server.js\<close>.\<close>

definition transcribeAudio ::
  "env \<Rightarrow> path \<Rightarrow> jsobj \<Rightarrow> world \<Rightarrow> ((error + jsobj) \<times> world) option" where
  "transcribeAudio env filePath options w =
     (if ASSEMBLYAI_API_KEY env = ''sua-chave-aqui''
      then Some (Inr [ ''text'' \<mapsto> JStr (placeholder_text (path_basename env filePath)),
                       ''confidence'' \<mapsto> JNum 0.95,
                       ''language_code'' \<mapsto> js_or (get_prop options ''language'') (JStr ''pt'') ], w)
      else
        case uploadToAssemblyAI env filePath w of
          (Inl e, w1) \<Rightarrow> Some (Inl e, w1)
        | (Inr audioUrl, w1) \<Rightarrow>
            (case startTranscription env audioUrl options w1 of
               (Inl e, w2) \<Rightarrow> Some (Inl e, w2)
             | (Inr transcriptId, w2) \<Rightarrow>
                 (case waitForTranscription env transcriptId w2 of
                    None \<Rightarrow> None
                  | Some (Inl e, w3) \<Rightarrow> Some (Inl e, w3)
                  | Some (Inr result, w3) \<Rightarrow>
                      Some (Inr [ ''text'' \<mapsto> t_text result,
                                  ''confidence'' \<mapsto> t_confidence result,
                                  ''language_code'' \<mapsto> t_language_code result,
                                  ''words'' \<mapsto> t_words result,
                                  ''utterances'' \<mapsto> t_utterances result ], w3))))"

text \<open>
  A status response that keeps the loop going, and the effects of \<open>k\<close> rounds of the
  loop that end in the delay.
\<close>

fun pending :: "transcript fetch_result \<Rightarrow> bool" where
  "pending (Ok_json data) = (t_status data \<noteq> ''completed'' \<and> t_status data \<noteq> ''error'')"
| "pending _ = False"

fun polls :: "string \<Rightarrow> nat \<Rightarrow> effect list" where
  "polls transcriptId 0 = []"
| "polls transcriptId (Suc k) = Fetch_status transcriptId # Timeout 3000 # polls transcriptId k"

section \<open>The routes\<close>

text \<open>
  Both transcription routes build the options for the client from the \<^verbatim>\<open>language\<close>
  field of the request body in the same way.
\<close>

definition transcriptionOptions :: "jsval \<Rightarrow> jsobj" where
  "transcriptionOptions language =
     (if truthy language \<and> language \<noteq> JStr ''auto''
      then [''language'' \<mapsto> language] else Map.empty)"

text \<open>
  The two awaits that both routes perform once the input file is in place: conversion,
  then transcription of the converted path. The outcome is the result object or the
  first error thrown.
\<close>

definition convert_and_transcribe ::
  "env \<Rightarrow> path \<Rightarrow> path \<Rightarrow> jsval \<Rightarrow> world \<Rightarrow> ((error + jsobj) \<times> world) option" where
  "convert_and_transcribe env inputPath convertedPath language w =
     (case convertVideoToAudio env inputPath convertedPath w of
        (Inl e, w1) \<Rightarrow> Some (Inl e, w1)
      | (Inr _, w1) \<Rightarrow>
          transcribeAudio env convertedPath (transcriptionOptions language) w1)"

text \<open>The success response of the routes of \<^verbatim>\<open>src/server.js\<close>.\<close>

definition result_body :: "jsobj \<Rightarrow> (string \<times> jsval) list" where
  "result_body result =
     [(''transcription'', get_prop result ''text''),
      (''confidence'', get_prop result ''confidence''),
      (''language_detected'', get_prop result ''language_code'')]"

text \<open>
  The \<^verbatim>\<open>finally\<close> block of both routes: two calls of \<^verbatim>\<open>cleanupFile\<close>. An exception
  escaping the first call would skip the second and reject the handler.
\<close>

definition finally_cleanup :: "path option \<Rightarrow> path option \<Rightarrow> world \<Rightarrow> error option \<times> world" where
  "finally_cleanup first second w =
     (case cleanupFile first w of
        (Some e, w1) \<Rightarrow> (Some e, w1)
      | (None, w1) \<Rightarrow> cleanupFile second w1)"

text \<open>
  The \<^verbatim>\<open>catch\<close> block of a route: a thrown error becomes the 500 response, whose
  message embeds the error's message after the route's prefix.
\<close>

definition catch_respond :: "string \<Rightarrow> error option \<Rightarrow> world \<Rightarrow> world" where
  "catch_respond intro thrown w =
     (case thrown of
        None \<Rightarrow> w
      | Some e \<Rightarrow> emit (Respond 500 [(''error'', JStr (intro @ message e))]) w)"

text \<open>
  The two temporary paths of the YouTube route, each from its own reading of the clock:
  \<^verbatim>\<open>`temp_youtube_${Date.now()}.webm`\<close> and \<^verbatim>\<open>`temp_youtube_${Date.now()}.wav`\<close>.
\<close>

definition youtube_audioPath :: "env \<Rightarrow> path" where
  "youtube_audioPath env = ''temp_youtube_'' @ showNat (date_now env 0) @ ''.webm''"

definition youtube_convertedPath :: "env \<Rightarrow> path" where
  "youtube_convertedPath env = ''temp_youtube_'' @ showNat (date_now env 1) @ ''.wav''"

text \<open>The prefixes of the 500 responses of the two routes.\<close>

definition youtube_prefix :: string where
  "youtube_prefix = ''Erro ao processar v'' @ i_acute @ ''deo do YouTube: ''"

definition upload_prefix :: string where
  "upload_prefix = ''Erro ao processar arquivo: ''"

record youtube_body =
  b_url :: jsval
  b_language :: jsval

text \<open>
  The \<^verbatim>\<open>try\<close> block of \<^verbatim>\<open>POST /api/transcribe-youtube\<close>. The result holds the error
  thrown out of the block, if any, and the values of \<^verbatim>\<open>audioPath\<close> and
  \<^verbatim>\<open>convertedPath\<close> when the block is left. \<open>acquire\<close> stands for the stream of the
  video library piped into the file at \<^verbatim>\<open>audioPath\<close> and the wait for its end.
\<close>

definition youtube_try ::
  "env \<Rightarrow> youtube_body \<Rightarrow> world \<Rightarrow> (error option \<times> path option \<times> path option \<times> world) option" where
  "youtube_try env body w =
     (case play_validate env (b_url body) of
        Inl e \<Rightarrow> Some (Some e, None, None, w)
      | Inr validation \<Rightarrow>
          if validation \<noteq> JStr ''yt_video''
          then Some (None, None, None,
                 emit (Respond 400 [(''error'', JStr (''URL do YouTube inv'' @ a_acute
                          @ ''lida ou n'' @ a_tilde @ ''o suportada''))]) w)
          else
            let audioPath = youtube_audioPath env;
                convertedPath = youtube_convertedPath env
            in case acquire env (b_url body) audioPath (files w) of
                 (Some e, fs1) \<Rightarrow>
                   Some (Some e, Some audioPath, Some convertedPath, w\<lparr>files := fs1\<rparr>)
               | (None, fs1) \<Rightarrow>
                   (case convert_and_transcribe env audioPath convertedPath (b_language body)
                           (w\<lparr>files := fs1\<rparr>) of
                      None \<Rightarrow> None
                    | Some (Inl e, w1) \<Rightarrow> Some (Some e, Some audioPath, Some convertedPath, w1)
                    | Some (Inr result, w1) \<Rightarrow>
                        Some (None, Some audioPath, Some convertedPath,
                              emit (Respond 200 (result_body result)) w1)))"

definition transcribe_youtube ::
  "env \<Rightarrow> youtube_body \<Rightarrow> world \<Rightarrow> (error option \<times> world) option" where
  "transcribe_youtube env body w =
     (case youtube_try env body w of
        None \<Rightarrow> None
      | Some (thrown, audioPath, convertedPath, w1) \<Rightarrow>
          Some (finally_cleanup audioPath convertedPath
                  (catch_respond youtube_prefix thrown w1)))"

text \<open>The file that multer stored for the request (\<^verbatim>\<open>req.file\<close>).\<close>

record upload =
  up_path :: path
  up_originalname :: string
  up_filename :: string

text \<open>
  The converted path of the upload route:
  \<^verbatim>\<open>path.join('uploads', `${baseName}_converted.wav`)\<close>, where \<^verbatim>\<open>baseName\<close> is the stored
  file name without its extension.
\<close>

definition file_convertedPath :: "env \<Rightarrow> upload \<Rightarrow> path" where
  "file_convertedPath env file =
     (let fileExtension = path_extname env (up_filename file);
          baseName = path_basename_ext env (up_filename file) fileExtension
      in path_join env ''uploads'' (baseName @ ''_converted.wav''))"

record file_request =
  req_file :: "upload option"
  req_language :: jsval

text \<open>
  The \<^verbatim>\<open>try\<close> block of \<^verbatim>\<open>POST /api/transcribe-file\<close>, with the error thrown out of it
  and the value of \<^verbatim>\<open>convertedPath\<close> when it is left.
\<close>

definition file_try ::
  "env \<Rightarrow> file_request \<Rightarrow> world \<Rightarrow> (error option \<times> path option \<times> world) option" where
  "file_try env req w =
     (case req_file req of
        None \<Rightarrow>
          Some (None, None, emit (Respond 400 [(''error'', JStr ''Nenhum arquivo enviado'')]) w)
      | Some file \<Rightarrow>
          (case validateMediaFile env (up_path file) (up_originalname file) w of
             Inl e \<Rightarrow>
               Some (None, None,
                     emit (Respond 400 [(''error'', JStr (''Arquivo inv'' @ a_acute @ ''lido: ''
                                                            @ message e))]) w)
           | Inr _ \<Rightarrow>
               let convertedPath = file_convertedPath env file
               in case convert_and_transcribe env (up_path file) convertedPath
                         (req_language req) w of
                    None \<Rightarrow> None
                  | Some (Inl e, w1) \<Rightarrow> Some (Some e, Some convertedPath, w1)
                  | Some (Inr result, w1) \<Rightarrow>
                      Some (None, Some convertedPath,
                            emit (Respond 200 (result_body result)) w1)))"

definition transcribe_file ::
  "env \<Rightarrow> file_request \<Rightarrow> world \<Rightarrow> (error option \<times> world) option" where
  "transcribe_file env req w =
     (case file_try env req w of
        None \<Rightarrow> None
      | Some (thrown, convertedPath, w1) \<Rightarrow>
          Some (finally_cleanup (map_option up_path (req_file req)) convertedPath
                  (catch_respond upload_prefix thrown w1)))"

text \<open>
  Projections of a trace: the arguments of the cleanup calls, the responses sent, the
  encoder runs and the number of status requests.
\<close>

fun cleanup_calls :: "effect list \<Rightarrow> path option list" where
  "cleanup_calls [] = []"
| "cleanup_calls (CleanupFile p # es) = p # cleanup_calls es"
| "cleanup_calls (e # es) = cleanup_calls es"

fun responses :: "effect list \<Rightarrow> (nat \<times> (string \<times> jsval) list) list" where
  "responses [] = []"
| "responses (Respond status body # es) = (status, body) # responses es"
| "responses (e # es) = responses es"

fun encoder_runs :: "effect list \<Rightarrow> command list" where
  "encoder_runs [] = []"
| "encoder_runs (Encode c # es) = c # encoder_runs es"
| "encoder_runs (e # es) = encoder_runs es"

fun status_requests :: "effect list \<Rightarrow> nat" where
  "status_requests [] = 0"
| "status_requests (Fetch_status i # es) = Suc (status_requests es)"
| "status_requests (e # es) = status_requests es"

text \<open>
  The response that the \<^verbatim>\<open>try\<close> and \<^verbatim>\<open>catch\<close> blocks of a route send for an outcome
  of conversion and transcription: the result with status 200, or the error's message
  after the route's prefix with status 500.
\<close>

definition pipeline_response :: "string \<Rightarrow> error + jsobj \<Rightarrow> effect" where
  "pipeline_response intro outcome =
     (case outcome of
        Inl e \<Rightarrow> Respond 500 [(''error'', JStr (intro @ message e))]
      | Inr result \<Rightarrow> Respond 200 (result_body result))"

section \<open>Sample collaborators\<close>

text \<open>
  Concrete collaborators, on which the theorems below are instantiated: a lower-casing
  of the ASCII letters, an extension and a base name taken at the last dot and the last
  slash, an encoder that lacks the MP3 codec and one that always fails, and a vendor
  whose job completes on the third status request or fails on the second.
\<close>

definition ascii_lower :: "string \<Rightarrow> string" where
  "ascii_lower s =
     map (\<lambda>c. if 65 \<le> (of_char c :: nat) \<and> (of_char c :: nat) \<le> 90
               then char_of ((of_char c :: nat) + 32) else c) s"

definition last_dot_ext :: "string \<Rightarrow> string" where
  "last_dot_ext name =
     (let stem = takeWhile (\<lambda>c. c \<noteq> CHR ''.'') (rev name)
      in if length name \<le> length stem + 1 then [] else CHR ''.'' # rev stem)"

definition last_component :: "string \<Rightarrow> string" where
  "last_component p = rev (takeWhile (\<lambda>c. c \<noteq> CHR ''/'') (rev p))"

definition strip_ext :: "string \<Rightarrow> string \<Rightarrow> string" where
  "strip_ext p ext =
     (let b = last_component p
      in if ext \<noteq> [] \<and> b \<noteq> ext \<and> endsWith b ext then take (length b - length ext) b else b)"

definition written :: entry where
  "written = \<lparr>f_content = ''RIFF-WAVE'', f_removable = True\<rparr>"

definition sample_encoder :: "command \<Rightarrow> fs \<Rightarrow> error option \<times> fs" where
  "sample_encoder cmd fs =
     (if c_format cmd = ''mp3'' then (Some (Error ''Unknown encoder libmp3lame''), fs)
      else (None, fs(c_output cmd \<mapsto> written)))"

definition broken_encoder :: "command \<Rightarrow> fs \<Rightarrow> error option \<times> fs" where
  "broken_encoder cmd fs = (Some (Error ''ffmpeg exited with code 1''), fs)"

definition sample_status :: "string \<Rightarrow> nat \<Rightarrow> transcript fetch_result" where
  "sample_status transcriptId n =
     Ok_json \<lparr>t_status = (if n < 2 then ''processing'' else ''completed''),
              t_error = None,
              t_text = (if n < 2 then JNull else JStr ''bom dia''),
              t_confidence = (if n < 2 then JNull else JNum 0.87),
              t_language_code = JStr ''pt'',
              t_words = JArr [],
              t_utterances = JNull\<rparr>"

definition failing_status :: "string \<Rightarrow> nat \<Rightarrow> transcript fetch_result" where
  "failing_status transcriptId n =
     Ok_json \<lparr>t_status = (if n < 1 then ''queued'' else ''error''),
              t_error = (if n < 1 then None else Some ''bad audio''),
              t_text = JNull, t_confidence = JNull, t_language_code = JNull,
              t_words = JNull, t_utterances = JNull\<rparr>"

definition sample_env :: env where
  "sample_env =
     \<lparr>api_key_var = None,
      libmp3lame_throws = False,
      encoder = sample_encoder,
      vendor_upload = (\<lambda>fileData. Ok_json ''https://cdn.example/upload/1''),
      vendor_transcript = (\<lambda>request. Ok_json ''job-1''),
      vendor_status = sample_status,
      path_extname = last_dot_ext,
      path_basename = last_component,
      path_basename_ext = strip_ext,
      path_join = (\<lambda>a b. a @ ''/'' @ b),
      toLowerCase = ascii_lower,
      play_validate = (\<lambda>url. Inr (JStr ''yt_video'')),
      acquire = (\<lambda>url p fs. (None, fs(p \<mapsto> written))),
      date_now = (\<lambda>n. 1730000000000 + n)\<rparr>"

definition broken_env :: env where
  "broken_env = sample_env\<lparr>encoder := broken_encoder\<rparr>"

definition empty_world :: world where
  "empty_world = \<lparr>files = Map.empty, trace = []\<rparr>"

definition one_file :: "path \<Rightarrow> string \<Rightarrow> world" where
  "one_file p bytes =
     \<lparr>files = [p \<mapsto> \<lparr>f_content = bytes, f_removable = True\<rparr>], trace = []\<rparr>"

text \<open>A YouTube request, and an upload whose stored file cannot be deleted.\<close>

definition locked_upload :: world where
  "locked_upload =
     \<lparr>files = [''uploads/1-talk.MP4'' \<mapsto> \<lparr>f_content = ''abc'', f_removable = False\<rparr>],
      trace = []\<rparr>"

definition sample_body :: youtube_body where
  "sample_body = \<lparr>b_url = JStr ''https://www.youtube.com/watch?v=abc'', b_language = JStr ''en''\<rparr>"

definition sample_upload :: upload where
  "sample_upload = \<lparr>up_path = ''uploads/1-talk.MP4'', up_originalname = ''talk.MP4'',
                     up_filename = ''1-talk.MP4''\<rparr>"

definition sample_request :: file_request where
  "sample_request = \<lparr>req_file = Some sample_upload, req_language = JUndefined\<rparr>"

section \<open>Properties of the request\<close>

text \<open>
  C6, as amended. The options are spread after the defaults, so a key of the options
  wins over a default. For options that carry no \<^verbatim>\<open>punctuate\<close> key the request has
  \<^verbatim>\<open>punctuate = true\<close>, and likewise for \<^verbatim>\<open>format_text\<close>; with no language or the
  language \<^verbatim>\<open>auto\<close>, and no \<^verbatim>\<open>language_detection\<close> key in the options, the request
  has \<^verbatim>\<open>language_detection = true\<close>; with a concrete language the request's
  \<^verbatim>\<open>language_code\<close> is that value and the \<^verbatim>\<open>language_detection\<close> key is deleted
  from the request, whatever the options hold.
\<close>

theorem request_defaults:
  "(options ''punctuate'' = None \<longrightarrow>
      transcriptRequest audioUrl options ''punctuate'' = Some (JBool True)) \<and>
   (options ''format_text'' = None \<longrightarrow>
      transcriptRequest audioUrl options ''format_text'' = Some (JBool True)) \<and>
   (options ''language_detection'' = None \<and>
    (\<not> truthy (get_prop options ''language'') \<or> get_prop options ''language'' = JStr ''auto'') \<longrightarrow>
      transcriptRequest audioUrl options ''language_detection'' = Some (JBool True)) \<and>
   (truthy (get_prop options ''language'') \<and> get_prop options ''language'' \<noteq> JStr ''auto'' \<longrightarrow>
      transcriptRequest audioUrl options ''language_code'' = Some (get_prop options ''language'') \<and>
      transcriptRequest audioUrl options ''language_detection'' = None)"
  by (auto simp: transcriptRequest_def request_literal_def map_add_def Let_def)

text \<open>The amended statement of C6 at no options, at \<^verbatim>\<open>auto\<close> and at \<^verbatim>\<open>en\<close>.\<close>

theorem request_defaults_witness:
  "transcriptRequest ''u'' Map.empty ''punctuate'' = Some (JBool True) \<and>
   transcriptRequest ''u'' Map.empty ''format_text'' = Some (JBool True) \<and>
   transcriptRequest ''u'' Map.empty ''language_detection'' = Some (JBool True) \<and>
   transcriptRequest ''u'' [''language'' \<mapsto> JStr ''auto''] ''language_detection'' = Some (JBool True) \<and>
   transcriptRequest ''u'' [''language'' \<mapsto> JStr ''en''] ''language_code'' = Some (JStr ''en'') \<and>
   transcriptRequest ''u'' [''language'' \<mapsto> JStr ''en''] ''language_detection'' = None"
  using request_defaults [of Map.empty "''u''"]
        request_defaults [of "[''language'' \<mapsto> JStr ''auto'']" "''u''"]
        request_defaults [of "[''language'' \<mapsto> JStr ''en'']" "''u''"]
  by (simp add: get_prop_def)

text \<open>
  C6 as stated fails: options that carry \<^verbatim>\<open>punctuate: false\<close> give a request with
  punctuation switched off.
\<close>

theorem request_override_counterexample:
  "transcriptRequest ''https://cdn.example/upload/1'' [''punctuate'' \<mapsto> JBool False] ''punctuate''
     = Some (JBool False)"
  by (simp add: transcriptRequest_def request_literal_def get_prop_def)

text \<open>
  C9. For options with a concrete language \<open>c\<close> (truthy and not \<^verbatim>\<open>auto\<close>) the request
  holds \<open>c\<close> under \<^verbatim>\<open>language_code\<close> and also under the raw key \<^verbatim>\<open>language\<close>:
  every key of the options other than the two that the adjustment touches reaches the
  request unchanged.
\<close>

theorem request_language_key:
  assumes "options ''language'' = Some c" and "truthy c" and "c \<noteq> JStr ''auto''"
  shows "transcriptRequest audioUrl options ''language_code'' = Some c
       \<and> transcriptRequest audioUrl options ''language'' = Some c
       \<and> (\<forall>k v. options k = Some v \<and> k \<noteq> ''language_code'' \<and> k \<noteq> ''language_detection''
              \<longrightarrow> transcriptRequest audioUrl options k = Some v)"
  using assms
  by (auto simp: transcriptRequest_def request_literal_def map_add_def Let_def get_prop_def)

text \<open>C9 at the language \<^verbatim>\<open>pt\<close>.\<close>

theorem request_language_key_witness:
  "transcriptRequest ''u'' [''language'' \<mapsto> JStr ''pt''] ''language_code'' = Some (JStr ''pt'')
   \<and> transcriptRequest ''u'' [''language'' \<mapsto> JStr ''pt''] ''language'' = Some (JStr ''pt'')"
  using request_language_key [of "[''language'' \<mapsto> JStr ''pt'']" "JStr ''pt''" "''u''"]
  by simp

section \<open>Properties of validation and of the placeholder\<close>

lemma msg_unsupported_contains:
  "sublist extension (msg_unsupported extension)"
  "sublist (join allowedExtensions '', '') (msg_unsupported extension)"
proof -
  have "msg_unsupported extension =
          (''Formato n'' @ a_tilde @ ''o suportado: '') @ extension
            @ (''. Formatos aceitos: '' @ join allowedExtensions '', '')"
    by (simp add: msg_unsupported_def)
  then show "sublist extension (msg_unsupported extension)"
    unfolding sublist_def by blast
  have "msg_unsupported extension =
          (''Formato n'' @ a_tilde @ ''o suportado: '' @ extension @ ''. Formatos aceitos: '')
            @ join allowedExtensions '', '' @ []"
    by (simp add: msg_unsupported_def)
  then show "sublist (join allowedExtensions '', '') (msg_unsupported extension)"
    unfolding sublist_def by blast
qed

text \<open>
  C8. For an existing file: a non-empty file whose lower-cased extension is in the
  allow-list is accepted with its size, that extension and the original name; an empty
  file is rejected; a non-empty file with another extension is rejected with a message
  that contains the extension and the list of accepted extensions.
\<close>

theorem validateMediaFile_cases:
  assumes "files w filePath = Some stats"
  shows "(f_content stats \<noteq> [] \<and> toLowerCase env (path_extname env originalName) \<in> set allowedExtensions \<longrightarrow>
           validateMediaFile env filePath originalName w =
             Inr \<lparr>info_size = length (f_content stats),
                  info_extension = toLowerCase env (path_extname env originalName),
                  info_name = originalName\<rparr>)
       \<and> (f_content stats = [] \<longrightarrow> isl (validateMediaFile env filePath originalName w))
       \<and> (f_content stats \<noteq> [] \<and> toLowerCase env (path_extname env originalName) \<notin> set allowedExtensions \<longrightarrow>
           (\<exists>msg. validateMediaFile env filePath originalName w = Inl (Error msg)
                \<and> sublist (toLowerCase env (path_extname env originalName)) msg
                \<and> sublist (join allowedExtensions '', '') msg))"
  using assms msg_unsupported_contains
  by (auto simp: validateMediaFile_def Let_def)

text \<open>C8 at an accepted upload, an empty upload and an upload of another format.\<close>

theorem validateMediaFile_cases_witness:
  "validateMediaFile sample_env ''uploads/1-talk.MP4'' ''talk.MP4'' (one_file ''uploads/1-talk.MP4'' ''abc'')
     = Inr \<lparr>info_size = 3, info_extension = ''.mp4'', info_name = ''talk.MP4''\<rparr>
   \<and> isl (validateMediaFile sample_env ''uploads/2-talk.mp4'' ''talk.mp4'' (one_file ''uploads/2-talk.mp4'' []))
   \<and> (\<exists>msg. validateMediaFile sample_env ''uploads/3-run.EXE'' ''run.EXE'' (one_file ''uploads/3-run.EXE'' ''MZ'')
                = Inl (Error msg) \<and> sublist ''.exe'' msg)"
proof -
  have l1: "ascii_lower (last_dot_ext ''talk.MP4'') = ''.mp4''" by code_simp
  have l3: "ascii_lower (last_dot_ext ''run.EXE'') = ''.exe''" by code_simp
  have e1: "toLowerCase sample_env (path_extname sample_env ''talk.MP4'') = ''.mp4''"
    by (simp add: sample_env_def l1)
  have e3: "toLowerCase sample_env (path_extname sample_env ''run.EXE'') = ''.exe''"
    by (simp add: sample_env_def l3)
  have a1: "''.mp4'' \<in> set allowedExtensions" by (simp add: allowedExtensions_def)
  have a3: "''.exe'' \<notin> set allowedExtensions" by (simp add: allowedExtensions_def)
  have f1: "files (one_file ''uploads/1-talk.MP4'' ''abc'') ''uploads/1-talk.MP4''
              = Some \<lparr>f_content = ''abc'', f_removable = True\<rparr>"
    by (simp add: one_file_def)
  have f2: "files (one_file ''uploads/2-talk.mp4'' []) ''uploads/2-talk.mp4''
              = Some \<lparr>f_content = [], f_removable = True\<rparr>"
    by (simp add: one_file_def)
  have f3: "files (one_file ''uploads/3-run.EXE'' ''MZ'') ''uploads/3-run.EXE''
              = Some \<lparr>f_content = ''MZ'', f_removable = True\<rparr>"
    by (simp add: one_file_def)
  from validateMediaFile_cases [OF f1, of sample_env "''talk.MP4''"]
  have "f_content \<lparr>f_content = ''abc'', f_removable = True\<rparr> \<noteq> []
          \<and> toLowerCase sample_env (path_extname sample_env ''talk.MP4'') \<in> set allowedExtensions \<longrightarrow>
        validateMediaFile sample_env ''uploads/1-talk.MP4'' ''talk.MP4'' (one_file ''uploads/1-talk.MP4'' ''abc'')
          = Inr \<lparr>info_size = length (f_content \<lparr>f_content = ''abc'', f_removable = True\<rparr>),
                 info_extension = toLowerCase sample_env (path_extname sample_env ''talk.MP4''),
                 info_name = ''talk.MP4''\<rparr>"
    by (rule conjunct1)
  then have r1: "validateMediaFile sample_env ''uploads/1-talk.MP4'' ''talk.MP4''
                   (one_file ''uploads/1-talk.MP4'' ''abc'')
                 = Inr \<lparr>info_size = 3, info_extension = ''.mp4'', info_name = ''talk.MP4''\<rparr>"
    using a1 by (simp add: e1)
  from validateMediaFile_cases [OF f2, of sample_env "''talk.mp4''"]
  have "f_content \<lparr>f_content = [], f_removable = True\<rparr> = [] \<longrightarrow>
        isl (validateMediaFile sample_env ''uploads/2-talk.mp4'' ''talk.mp4''
               (one_file ''uploads/2-talk.mp4'' []))"
    by (rule conjunct2 [THEN conjunct1])
  then have r2: "isl (validateMediaFile sample_env ''uploads/2-talk.mp4'' ''talk.mp4''
                   (one_file ''uploads/2-talk.mp4'' []))"
    by simp
  from validateMediaFile_cases [OF f3, of sample_env "''run.EXE''"]
  have "f_content \<lparr>f_content = ''MZ'', f_removable = True\<rparr> \<noteq> []
          \<and> toLowerCase sample_env (path_extname sample_env ''run.EXE'') \<notin> set allowedExtensions \<longrightarrow>
        (\<exists>msg. validateMediaFile sample_env ''uploads/3-run.EXE'' ''run.EXE''
                  (one_file ''uploads/3-run.EXE'' ''MZ'') = Inl (Error msg)
              \<and> sublist (toLowerCase sample_env (path_extname sample_env ''run.EXE'')) msg
              \<and> sublist (join allowedExtensions '', '') msg)"
    by (rule conjunct2 [THEN conjunct2])
  then have r3: "\<exists>msg. validateMediaFile sample_env ''uploads/3-run.EXE'' ''run.EXE''
                  (one_file ''uploads/3-run.EXE'' ''MZ'') = Inl (Error msg) \<and> sublist ''.exe'' msg"
    using a3 unfolding e3 by auto
  from r1 r2 r3 show ?thesis by (intro conjI)
qed

text \<open>
  C10. Emptiness is checked before the extension: an existing file of zero bytes is
  rejected with the empty-file message whatever the original name, so never with the
  message for an unsupported format.
\<close>

theorem validateMediaFile_empty_first:
  assumes "files w filePath = Some stats" and "f_content stats = []"
  shows "validateMediaFile env filePath originalName w = Inl (Error msg_empty)
       \<and> validateMediaFile env filePath originalName w \<noteq> Inl (Error (msg_unsupported extension))"
  using assms
  by (simp add: validateMediaFile_def msg_empty_def msg_unsupported_def)

text \<open>C10 at an empty upload whose extension is outside the allow-list.\<close>

theorem validateMediaFile_empty_first_witness:
  "validateMediaFile sample_env ''uploads/3-run.EXE'' ''run.EXE'' (one_file ''uploads/3-run.EXE'' '''')
     = Inl (Error msg_empty)
   \<and> validateMediaFile sample_env ''uploads/3-run.EXE'' ''run.EXE'' (one_file ''uploads/3-run.EXE'' '''')
     \<noteq> Inl (Error (msg_unsupported ''.exe''))"
proof -
  have f: "files (one_file ''uploads/3-run.EXE'' []) ''uploads/3-run.EXE''
             = Some \<lparr>f_content = [], f_removable = True\<rparr>"
    by (simp add: one_file_def)
  show ?thesis by (rule validateMediaFile_empty_first [OF f]) simp
qed

text \<open>
  With a real credential the first effect of \<^verbatim>\<open>transcribeAudio\<close> on a readable file
  is the upload request; here, when the vendor's upload endpoint rejects.
\<close>

lemma transcribeAudio_upload_rejected:
  assumes "ASSEMBLYAI_API_KEY env \<noteq> ''sua-chave-aqui''"
      and "files w filePath = Some f"
      and "vendor_upload env (f_content f) = Rejected e"
  shows "transcribeAudio env filePath options w = Some (Inl e, emit (Fetch_upload (f_content f)) w)"
  using assms by (simp add: transcribeAudio_def uploadToAssemblyAI_def Let_def)

text \<open>
  C7. When the credential is the placeholder value, \<^verbatim>\<open>transcribeAudio\<close> returns at
  once with the world as it found it (no request is made, the trace is unchanged); the
  result has confidence 0.95 and, as language code, the requested language when there
  is one and \<^verbatim>\<open>pt\<close> otherwise.
\<close>

theorem transcribeAudio_placeholder:
  assumes "ASSEMBLYAI_API_KEY env = ''sua-chave-aqui''"
  shows "\<exists>result. transcribeAudio env filePath options w = Some (Inr result, w)
           \<and> get_prop result ''confidence'' = JNum 0.95
           \<and> get_prop result ''language_code'' =
                (if truthy (get_prop options ''language'') then get_prop options ''language''
                 else JStr ''pt'')"
  using assms by (simp add: transcribeAudio_def get_prop_def js_or_def)

text \<open>C7 with the credential unset, with and without a requested language.\<close>

theorem transcribeAudio_placeholder_witness:
  "ASSEMBLYAI_API_KEY sample_env = ''sua-chave-aqui''
   \<and> (\<exists>result. transcribeAudio sample_env ''uploads/a.wav'' [''language'' \<mapsto> JStr ''en''] empty_world
                   = Some (Inr result, empty_world)
             \<and> get_prop result ''confidence'' = JNum 0.95
             \<and> get_prop result ''language_code'' = JStr ''en'')
   \<and> (\<exists>result. transcribeAudio sample_env ''uploads/a.wav'' Map.empty empty_world
                   = Some (Inr result, empty_world)
             \<and> get_prop result ''language_code'' = JStr ''pt'')"
proof -
  have k: "ASSEMBLYAI_API_KEY sample_env = ''sua-chave-aqui''"
    by (simp add: ASSEMBLYAI_API_KEY_def sample_env_def)
  show ?thesis
    using k transcribeAudio_placeholder [OF k, of "''uploads/a.wav''" "[''language'' \<mapsto> JStr ''en'']" empty_world]
          transcribeAudio_placeholder [OF k, of "''uploads/a.wav''" Map.empty empty_world]
    by (simp add: get_prop_def) blast
qed

section \<open>Properties of the conversion\<close>

lemma prefix_mp3_over_end:
  "prefix ''.mp3'' (c # cs @ ''.mp3'') \<Longrightarrow> prefix ''.mp3'' (c # cs)"
proof (cases cs)
  case Nil then show "prefix ''.mp3'' (c # cs @ ''.mp3'') \<Longrightarrow> ?thesis" by simp
next
  case c1: (Cons a as)
  assume p: "prefix ''.mp3'' (c # cs @ ''.mp3'')"
  show ?thesis
  proof (cases as)
    case Nil then show ?thesis using p c1 by simp
  next
    case c2: (Cons b bs)
    show ?thesis
    proof (cases bs)
      case Nil then show ?thesis using p c1 c2 by simp
    next
      case (Cons d ds) then show ?thesis using p c1 c2 by simp
    qed
  qed
qed

lemma replace_final_extension:
  "\<not> sublist ''.mp3'' base \<Longrightarrow> replace (base @ ''.mp3'') ''.mp3'' ''.wav'' = base @ ''.wav''"
proof (induction base)
  case Nil then show ?case by simp
next
  case (Cons c cs)
  have "\<not> prefix ''.mp3'' (c # cs)"
    using Cons.prems by (meson prefix_imp_sublist)
  then have np: "\<not> prefix ''.mp3'' ((c # cs) @ ''.mp3'')"
    using prefix_mp3_over_end[of c cs] by auto
  have "\<not> sublist ''.mp3'' cs" using Cons.prems by (meson sublist_Cons_right)
  then have ih: "replace (cs @ ''.mp3'') ''.mp3'' ''.wav'' = cs @ ''.wav''" by (rule Cons.IH)
  have "replace ((c # cs) @ ''.mp3'') ''.mp3'' ''.wav'' = c # replace (cs @ ''.mp3'') ''.mp3'' ''.wav''"
    using np by (simp only: append_Cons replace.simps if_False)
  then show ?case using ih by simp
qed

lemma world_updates [simp]:
  "(w :: world)\<lparr>files := a, trace := b\<rparr> = \<lparr>files = a, trace = b\<rparr>"
  by (cases w) simp

lemma convert_step:
  "convertVideoToAudio env inputPath outputPath w =
     (case encoder env (build_command env inputPath outputPath) (files w) of
        (None, fs') \<Rightarrow>
          (Inr outputPath,
           \<lparr>files = fs', trace = trace w @ [Encode (build_command env inputPath outputPath)]\<rparr>)
      | (Some err, fs') \<Rightarrow>
          if \<not> endsWith outputPath ''.wav'' \<and> endsWith outputPath ''.mp3''
          then convertVideoToAudio env inputPath (replace outputPath ''.mp3'' ''.wav'')
                 \<lparr>files = fs', trace = trace w @ [Encode (build_command env inputPath outputPath)]\<rparr>
          else (Inl err,
                \<lparr>files = fs', trace = trace w @ [Encode (build_command env inputPath outputPath)]\<rparr>))"
  by (subst convertVideoToAudio.simps)
     (auto simp: save_def emit_def Let_def split: prod.splits option.splits)

lemma endsWith_append [simp]: "endsWith (base @ suf) suf"
  by (simp add: endsWith_def)

lemma not_wav_mp3 [simp]: "\<not> endsWith (base @ ''.mp3'') ''.wav''"
  by (simp add: endsWith_suffix suffix_to_prefix)

lemma build_command_output: "c_output (build_command env inputPath outputPath) = outputPath"
  by (simp add: build_command_def Let_def)

lemma convert_wav_terminal:
  assumes "endsWith outputPath ''.wav''"
      and "encoder env (build_command env inputPath outputPath) (files w) = (outcome, fs1)"
  shows "convertVideoToAudio env inputPath outputPath w =
           ((case outcome of None \<Rightarrow> Inr outputPath | Some err \<Rightarrow> Inl err),
            \<lparr>files = fs1, trace = trace w @ [Encode (build_command env inputPath outputPath)]\<rparr>)"
  by (subst convert_step) (simp add: assms split: option.splits)

text \<open>
  C3, as amended. For an output path that ends in \<^verbatim>\<open>.mp3\<close> and holds \<^verbatim>\<open>.mp3\<close>
  nowhere else: when the first run of the encoder fails, the conversion runs the encoder
  exactly once more, on the path with \<^verbatim>\<open>.wav\<close> in place of the extension, and
  resolves with that path when the second run succeeds (and rejects with the second
  run's error otherwise).
\<close>

theorem convert_mp3_fallback_once:
  assumes "\<not> sublist ''.mp3'' base"
      and "encoder env (build_command env inputPath (base @ ''.mp3'')) (files w) = (Some err, fs1)"
      and "encoder env (build_command env inputPath (base @ ''.wav'')) fs1 = (retry, fs2)"
  shows "convertVideoToAudio env inputPath (base @ ''.mp3'') w =
           ((case retry of None \<Rightarrow> Inr (base @ ''.wav'') | Some err2 \<Rightarrow> Inl err2),
            \<lparr>files = fs2,
             trace = trace w @ [Encode (build_command env inputPath (base @ ''.mp3'')),
                                Encode (build_command env inputPath (base @ ''.wav''))]\<rparr>)"
proof -
  have r: "replace (base @ ''.mp3'') ''.mp3'' ''.wav'' = base @ ''.wav''"
    using assms(1) by (rule replace_final_extension)
  have first: "convertVideoToAudio env inputPath (base @ ''.mp3'') w =
          convertVideoToAudio env inputPath (base @ ''.wav'')
            \<lparr>files = fs1, trace = trace w @ [Encode (build_command env inputPath (base @ ''.mp3''))]\<rparr>"
    by (subst convert_step) (simp add: assms(2) r)
  show ?thesis unfolding first
    by (subst convert_step) (simp add: assms(3) split: option.splits)
qed

text \<open>The amended statement of C3 with an encoder that lacks the MP3 codec.\<close>

theorem convert_mp3_fallback_once_witness:
  "\<not> sublist ''.mp3'' ''uploads/talk''
   \<and> fst (convertVideoToAudio sample_env ''uploads/talk.mp4'' ''uploads/talk.mp3'' empty_world)
       = Inr ''uploads/talk.wav''
   \<and> map c_output (encoder_runs (trace (snd
         (convertVideoToAudio sample_env ''uploads/talk.mp4'' ''uploads/talk.mp3'' empty_world))))
       = [''uploads/talk.mp3'', ''uploads/talk.wav'']"
proof -
  have n: "\<not> sublist ''.mp3'' ''uploads/talk''" by code_simp
  have e1: "encoder sample_env (build_command sample_env ''uploads/talk.mp4'' (''uploads/talk'' @ ''.mp3''))
              (files empty_world)
            = (Some (Error ''Unknown encoder libmp3lame''), Map.empty)"
    by (simp add: sample_env_def sample_encoder_def build_command_def endsWith_def empty_world_def)
  have e2: "encoder sample_env (build_command sample_env ''uploads/talk.mp4'' (''uploads/talk'' @ ''.wav''))
              Map.empty
            = (None, [''uploads/talk.wav'' \<mapsto> written])"
    by (simp add: sample_env_def sample_encoder_def build_command_def endsWith_def)
  show ?thesis
    using n convert_mp3_fallback_once [OF n e1 e2]
    by (simp add: build_command_output empty_world_def)
qed

text \<open>
  C3 as stated fails for a compressed target other than \<^verbatim>\<open>.mp3\<close>: the handler
  retries only when the output path ends in \<^verbatim>\<open>.mp3\<close>, so a failed conversion to
  \<^verbatim>\<open>.aac\<close> rejects after one run of the encoder, although a WAV run would succeed.
\<close>

theorem convert_other_extension_counterexample:
  "fst (convertVideoToAudio sample_env ''uploads/talk.mp4'' ''uploads/talk.aac'' empty_world)
     = Inl (Error ''Unknown encoder libmp3lame'')
   \<and> map c_output (encoder_runs (trace (snd
         (convertVideoToAudio sample_env ''uploads/talk.mp4'' ''uploads/talk.aac'' empty_world))))
       = [''uploads/talk.aac'']"
  by (subst (1 2) convert_step)
     (simp add: sample_env_def sample_encoder_def build_command_def endsWith_def empty_world_def Let_def)

text \<open>
  C2 at the output path \<^verbatim>\<open>a.mp3.mp3\<close> with an encoder that always fails:
  \<^verbatim>\<open>replace\<close> rewrites the first \<^verbatim>\<open>.mp3\<close>, not the extension, so the retry targets
  \<^verbatim>\<open>a.wav.mp3\<close>, which is again an MP3 target; its failure starts a second retry. The
  encoder runs three times and the fallback fires twice.
\<close>

theorem convert_double_fallback:
  "fst (convertVideoToAudio broken_env ''in.webm'' ''a.mp3.mp3'' empty_world)
     = Inl (Error ''ffmpeg exited with code 1'')
   \<and> map c_output (encoder_runs (trace (snd
         (convertVideoToAudio broken_env ''in.webm'' ''a.mp3.mp3'' empty_world))))
       = [''a.mp3.mp3'', ''a.wav.mp3'', ''a.wav.wav'']"
proof -
  have enc: "\<And>c fs. encoder broken_env c fs = (Some (Error ''ffmpeg exited with code 1''), fs)"
    by (simp add: broken_env_def broken_encoder_def)
  have s1: "convertVideoToAudio broken_env ''in.webm'' ''a.mp3.mp3'' empty_world =
            convertVideoToAudio broken_env ''in.webm'' ''a.wav.mp3''
              \<lparr>files = Map.empty,
               trace = [Encode (build_command broken_env ''in.webm'' ''a.mp3.mp3'')]\<rparr>"
    by (subst convert_step) (simp add: enc endsWith_def empty_world_def)
  have s2: "convertVideoToAudio broken_env ''in.webm'' ''a.wav.mp3''
              \<lparr>files = Map.empty,
               trace = [Encode (build_command broken_env ''in.webm'' ''a.mp3.mp3'')]\<rparr> =
            convertVideoToAudio broken_env ''in.webm'' ''a.wav.wav''
              \<lparr>files = Map.empty,
               trace = [Encode (build_command broken_env ''in.webm'' ''a.mp3.mp3''),
                        Encode (build_command broken_env ''in.webm'' ''a.wav.mp3'')]\<rparr>"
    by (subst convert_step) (simp add: enc endsWith_def)
  have s3: "convertVideoToAudio broken_env ''in.webm'' ''a.wav.wav''
              \<lparr>files = Map.empty,
               trace = [Encode (build_command broken_env ''in.webm'' ''a.mp3.mp3''),
                        Encode (build_command broken_env ''in.webm'' ''a.wav.mp3'')]\<rparr> =
            (Inl (Error ''ffmpeg exited with code 1''),
              \<lparr>files = Map.empty,
               trace = [Encode (build_command broken_env ''in.webm'' ''a.mp3.mp3''),
                        Encode (build_command broken_env ''in.webm'' ''a.wav.mp3''),
                        Encode (build_command broken_env ''in.webm'' ''a.wav.wav'')]\<rparr>)"
    by (subst convert_step) (simp add: enc endsWith_def)
  show ?thesis unfolding s1 s2 s3 by (simp add: build_command_output)
qed

section \<open>Properties of the polling loop\<close>

lemma loop_pending:
  "(\<And>i. i < k \<Longrightarrow> pending (vendor_status env tid (n + i))) \<Longrightarrow>
   waitForTranscription_loop env tid n w =
   waitForTranscription_loop env tid (n + k) (w\<lparr>trace := trace w @ polls tid k\<rparr>)"
proof (induction k arbitrary: n w)
  case 0 then show ?case by simp
next
  case (Suc k)
  have p0: "pending (vendor_status env tid n)" using Suc.prems[of 0] by simp
  have step: "waitForTranscription_loop env tid n w =
        waitForTranscription_loop env tid (Suc n) (emit (Timeout 3000) (emit (Fetch_status tid) w))"
    using p0 by (subst waitForTranscription_loop.simps) (cases "vendor_status env tid n"; simp)
  have "\<And>i. i < k \<Longrightarrow> pending (vendor_status env tid (Suc n + i))"
    using Suc.prems[of "Suc _"] by simp
  from Suc.IH[OF this] step show ?case by (simp add: emit_def)
qed

lemma status_requests_append:
  "status_requests (xs @ ys) = status_requests xs + status_requests ys"
  by (induction xs rule: status_requests.induct) simp_all

lemma status_requests_polls: "status_requests (polls tid k) = k"
  by (induction k) simp_all

lemma wait_reaches:
  assumes "\<forall>i<k. pending (vendor_status env tid i)"
  shows "waitForTranscription env tid w =
         waitForTranscription_loop env tid k (w\<lparr>trace := trace w @ polls tid k\<rparr>)"
  unfolding waitForTranscription_def
  using loop_pending [of k env tid 0 w] assms by simp

lemma msg_job_error_contains: "sublist m (msg_job_error (Some m))"
proof -
  have "msg_job_error (Some m) = (''Erro na transcri'' @ c_cedil @ a_tilde @ ''o: '') @ m @ []"
    by (simp add: msg_job_error_def)
  then show ?thesis unfolding sublist_def by blast
qed

text \<open>
  C4. Let the status endpoint answer the first \<open>k\<close> requests for a job with responses
  that are neither \<^verbatim>\<open>completed\<close> nor \<^verbatim>\<open>error\<close>, and the next one with a completed
  transcript. Then \<^verbatim>\<open>waitForTranscription\<close> returns that transcript as it is, after
  \<open>k + 1\<close> status requests, one per response, with a delay of 3000 ms after each of
  the first \<open>k\<close> and nothing after the last.
\<close>

theorem waitForTranscription_completed:
  assumes "\<forall>i<k. pending (vendor_status env transcriptId i)"
      and "vendor_status env transcriptId k = Ok_json data"
      and "t_status data = ''completed''"
  shows "waitForTranscription env transcriptId w =
           Some (Inr data,
                 w\<lparr>trace := trace w @ polls transcriptId k @ [Fetch_status transcriptId]\<rparr>)
       \<and> status_requests (polls transcriptId k @ [Fetch_status transcriptId]) = k + 1"
proof -
  have "waitForTranscription_loop env transcriptId k (w\<lparr>trace := trace w @ polls transcriptId k\<rparr>)
          = Some (Inr data,
                 w\<lparr>trace := trace w @ polls transcriptId k @ [Fetch_status transcriptId]\<rparr>)"
    by (subst waitForTranscription_loop.simps) (simp add: assms(2,3) emit_def)
  then show ?thesis
    using wait_reaches [OF assms(1)]
    by (simp add: status_requests_append status_requests_polls)
qed

text \<open>C4 at the sequence processing, processing, completed: three status requests.\<close>

theorem waitForTranscription_completed_witness:
  "waitForTranscription sample_env ''job-1'' empty_world =
     Some (Inr \<lparr>t_status = ''completed'', t_error = None, t_text = JStr ''bom dia'',
                t_confidence = JNum 0.87, t_language_code = JStr ''pt'',
                t_words = JArr [], t_utterances = JNull\<rparr>,
           \<lparr>files = Map.empty,
            trace = [Fetch_status ''job-1'', Timeout 3000,
                     Fetch_status ''job-1'', Timeout 3000,
                     Fetch_status ''job-1'']\<rparr>)
   \<and> status_requests [Fetch_status ''job-1'', Timeout 3000,
                        Fetch_status ''job-1'', Timeout 3000,
                        Fetch_status ''job-1''] = 3"
proof -
  have p: "\<forall>i<2. pending (vendor_status sample_env ''job-1'' i)"
    by (simp add: sample_env_def sample_status_def)
  have c: "vendor_status sample_env ''job-1'' 2 =
             Ok_json \<lparr>t_status = ''completed'', t_error = None, t_text = JStr ''bom dia'',
                t_confidence = JNum 0.87, t_language_code = JStr ''pt'',
                t_words = JArr [], t_utterances = JNull\<rparr>"
    by (simp add: sample_env_def sample_status_def)
  have q: "polls ''job-1'' 2 = [Fetch_status ''job-1'', Timeout 3000, Fetch_status ''job-1'', Timeout 3000]"
    by (simp add: numeral_2_eq_2)
  show ?thesis
    using waitForTranscription_completed [OF p c, of empty_world]
    by (simp add: q empty_world_def)
qed

text \<open>
  C5. When the response that ends the polling has status \<^verbatim>\<open>error\<close> and the error
  message \<open>m\<close>, \<^verbatim>\<open>waitForTranscription\<close> rejects with an error whose message is the
  fixed prefix followed by \<open>m\<close>, and the request that fetched this response is the last
  effect of the call.
\<close>

theorem waitForTranscription_error:
  assumes "\<forall>i<k. pending (vendor_status env transcriptId i)"
      and "vendor_status env transcriptId k = Ok_json data"
      and "t_status data = ''error''"
      and "t_error data = Some m"
  shows "\<exists>e. waitForTranscription env transcriptId w =
               Some (Inl e,
                     w\<lparr>trace := trace w @ polls transcriptId k @ [Fetch_status transcriptId]\<rparr>)
            \<and> message e = ''Erro na transcri'' @ c_cedil @ a_tilde @ ''o: '' @ m
            \<and> sublist m (message e)
            \<and> status_requests (polls transcriptId k @ [Fetch_status transcriptId]) = k + 1"
proof -
  have "waitForTranscription_loop env transcriptId k (w\<lparr>trace := trace w @ polls transcriptId k\<rparr>)
          = Some (Inl (Error (msg_job_error (Some m))),
                 w\<lparr>trace := trace w @ polls transcriptId k @ [Fetch_status transcriptId]\<rparr>)"
    by (subst waitForTranscription_loop.simps) (simp add: assms(2,3,4) emit_def)
  then have "waitForTranscription env transcriptId w =
          Some (Inl (Error (msg_job_error (Some m))),
                 w\<lparr>trace := trace w @ polls transcriptId k @ [Fetch_status transcriptId]\<rparr>)"
    using wait_reaches [OF assms(1)] by simp
  moreover have "message (Error (msg_job_error (Some m)))
                   = ''Erro na transcri'' @ c_cedil @ a_tilde @ ''o: '' @ m"
    by (simp add: msg_job_error_def)
  moreover have "sublist m (message (Error (msg_job_error (Some m))))"
    using msg_job_error_contains by simp
  moreover have "status_requests (polls transcriptId k @ [Fetch_status transcriptId]) = k + 1"
    by (simp add: status_requests_append status_requests_polls)
  ultimately show ?thesis by blast
qed

text \<open>C5 at the sequence queued, error with the message \<^verbatim>\<open>bad audio\<close>.\<close>

theorem waitForTranscription_error_witness:
  "\<exists>e. waitForTranscription (sample_env\<lparr>vendor_status := failing_status\<rparr>) ''job-2'' empty_world =
          Some (Inl e, \<lparr>files = Map.empty,
                        trace = [Fetch_status ''job-2'', Timeout 3000, Fetch_status ''job-2'']\<rparr>)
       \<and> sublist ''bad audio'' (message e)"
proof -
  have p: "\<forall>i<1. pending (vendor_status (sample_env\<lparr>vendor_status := failing_status\<rparr>) ''job-2'' i)"
    by (simp add: failing_status_def)
  have c: "vendor_status (sample_env\<lparr>vendor_status := failing_status\<rparr>) ''job-2'' 1 =
             Ok_json \<lparr>t_status = ''error'', t_error = Some ''bad audio'',
              t_text = JNull, t_confidence = JNull, t_language_code = JNull,
              t_words = JNull, t_utterances = JNull\<rparr>"
    by (simp add: failing_status_def)
  have q: "polls ''job-2'' 1 = [Fetch_status ''job-2'', Timeout 3000]"
    by simp
  show ?thesis
    using waitForTranscription_error [OF p c, of "''bad audio''" empty_world]
    by (simp add: q empty_world_def) blast
qed

section \<open>Properties of the routes\<close>

lemma cleanup_calls_append:
  "cleanup_calls (xs @ ys) = cleanup_calls xs @ cleanup_calls ys"
  by (induction xs rule: cleanup_calls.induct) simp_all

lemma responses_append:
  "responses (xs @ ys) = responses xs @ responses ys"
  by (induction xs rule: responses.induct) simp_all

lemma cleanupFile_effects:
  "\<exists>w' post. cleanupFile filePath w = (None, w') \<and> trace w' = trace w @ post
      \<and> cleanup_calls post = [filePath] \<and> responses post = []"
proof (cases filePath)
  case None
  then show ?thesis by (simp add: cleanupFile_def emit_def)
next
  case (Some p)
  show ?thesis
  proof (cases "files w p")
    case None
    then show ?thesis using Some by (simp add: cleanupFile_def emit_def)
  next
    case (Some f)
    then show ?thesis using \<open>filePath = Some p\<close>
      by (cases "f_removable f") (simp_all add: cleanupFile_def unlinkSync_def emit_def)
  qed
qed

lemma finally_cleanup_effects:
  "\<exists>w' post. finally_cleanup first second w = (None, w') \<and> trace w' = trace w @ post
      \<and> cleanup_calls post = [first, second] \<and> responses post = []"
proof -
  obtain w1 post1 where 1: "cleanupFile first w = (None, w1)" "trace w1 = trace w @ post1"
      "cleanup_calls post1 = [first]" "responses post1 = []"
    using cleanupFile_effects by blast
  obtain w2 post2 where 2: "cleanupFile second w1 = (None, w2)" "trace w2 = trace w1 @ post2"
      "cleanup_calls post2 = [second]" "responses post2 = []"
    using cleanupFile_effects by blast
  have "finally_cleanup first second w = (None, w2)" by (simp add: finally_cleanup_def 1 2)
  moreover have "trace w2 = trace w @ (post1 @ post2)" by (simp add: 1 2)
  moreover have "cleanup_calls (post1 @ post2) = [first, second]"
    by (simp add: cleanup_calls_append 1 2)
  moreover have "responses (post1 @ post2) = []" by (simp add: responses_append 1 2)
  ultimately show ?thesis by blast
qed

lemma catch_respond_outcome:
  "trace (catch_respond intro (case outcome of Inl e \<Rightarrow> Some e | Inr r \<Rightarrow> None)
            (case outcome of Inl e \<Rightarrow> w | Inr r \<Rightarrow> emit (Respond 200 (result_body r)) w))
     = trace w @ [pipeline_response intro outcome]"
  by (cases outcome) (simp_all add: catch_respond_def pipeline_response_def emit_def)

lemma youtube_route:
  assumes "play_validate env (b_url body) = Inr (JStr ''yt_video'')"
      and "acquire env (b_url body) (youtube_audioPath env) (files w) = (None, fs1)"
      and "convert_and_transcribe env (youtube_audioPath env) (youtube_convertedPath env)
             (b_language body) (w\<lparr>files := fs1\<rparr>) = Some (outcome, w1)"
  shows "\<exists>w' post. transcribe_youtube env body w = Some (None, w')
           \<and> trace w' = trace w1 @ [pipeline_response youtube_prefix outcome] @ post
           \<and> cleanup_calls post = [Some (youtube_audioPath env), Some (youtube_convertedPath env)]
           \<and> responses post = []"
proof -
  let ?thrown = "case outcome of Inl e \<Rightarrow> Some e | Inr r \<Rightarrow> None"
  let ?w = "case outcome of Inl e \<Rightarrow> w1 | Inr r \<Rightarrow> emit (Respond 200 (result_body r)) w1"
  have t: "youtube_try env body w =
             Some (?thrown, Some (youtube_audioPath env), Some (youtube_convertedPath env), ?w)"
    using assms by (cases outcome) (simp_all add: youtube_try_def Let_def)
  obtain w' post where f: "finally_cleanup (Some (youtube_audioPath env)) (Some (youtube_convertedPath env))
        (catch_respond youtube_prefix ?thrown ?w) = (None, w')"
      "trace w' = trace (catch_respond youtube_prefix ?thrown ?w) @ post"
      "cleanup_calls post = [Some (youtube_audioPath env), Some (youtube_convertedPath env)]"
      "responses post = []"
    using finally_cleanup_effects by blast
  have "transcribe_youtube env body w = Some (None, w')"
    by (simp add: transcribe_youtube_def t f(1))
  moreover have "trace w' = trace w1 @ [pipeline_response youtube_prefix outcome] @ post"
    using f(2) by (simp add: catch_respond_outcome)
  ultimately show ?thesis using f(3,4) by blast
qed

lemma file_route:
  assumes "req_file req = Some file"
      and "validateMediaFile env (up_path file) (up_originalname file) w = Inr info"
      and "convert_and_transcribe env (up_path file) (file_convertedPath env file)
             (req_language req) w = Some (outcome, w1)"
  shows "\<exists>w' post. transcribe_file env req w = Some (None, w')
           \<and> trace w' = trace w1 @ [pipeline_response upload_prefix outcome] @ post
           \<and> cleanup_calls post = [Some (up_path file), Some (file_convertedPath env file)]
           \<and> responses post = []"
proof -
  let ?thrown = "case outcome of Inl e \<Rightarrow> Some e | Inr r \<Rightarrow> None"
  let ?w = "case outcome of Inl e \<Rightarrow> w1 | Inr r \<Rightarrow> emit (Respond 200 (result_body r)) w1"
  have t: "file_try env req w = Some (?thrown, Some (file_convertedPath env file), ?w)"
    using assms by (cases outcome) (simp_all add: file_try_def Let_def)
  obtain w' post where f: "finally_cleanup (Some (up_path file)) (Some (file_convertedPath env file))
        (catch_respond upload_prefix ?thrown ?w) = (None, w')"
      "trace w' = trace (catch_respond upload_prefix ?thrown ?w) @ post"
      "cleanup_calls post = [Some (up_path file), Some (file_convertedPath env file)]"
      "responses post = []"
    using finally_cleanup_effects by blast
  have "transcribe_file env req w = Some (None, w')"
    by (simp add: transcribe_file_def t f(1) assms(1))
  moreover have "trace w' = trace w1 @ [pipeline_response upload_prefix outcome] @ post"
    using f(2) by (simp add: catch_respond_outcome)
  ultimately show ?thesis using f(3,4) by blast
qed

lemma placeholder_returns:
  "ASSEMBLYAI_API_KEY env = ''sua-chave-aqui'' \<Longrightarrow>
   \<exists>result. transcribeAudio env filePath options w = Some (Inr result, w)"
  by (simp add: transcribeAudio_def)

lemma sample_pipeline:
  assumes "endsWith c ''.wav''"
  shows "\<exists>result. convert_and_transcribe sample_env a c lang w =
           Some (Inr result,
                 \<lparr>files = (files w)(c \<mapsto> written),
                  trace = trace w @ [Encode (build_command sample_env a c)]\<rparr>)"
proof -
  have k: "ASSEMBLYAI_API_KEY sample_env = ''sua-chave-aqui''"
    by (simp add: ASSEMBLYAI_API_KEY_def sample_env_def)
  have e: "encoder sample_env (build_command sample_env a c) (files w)
             = (None, (files w)(c \<mapsto> written))"
    using assms by (simp add: sample_env_def sample_encoder_def build_command_def)
  have "convertVideoToAudio sample_env a c w =
          (Inr c, \<lparr>files = (files w)(c \<mapsto> written),
                   trace = trace w @ [Encode (build_command sample_env a c)]\<rparr>)"
    using convert_wav_terminal [OF assms e] by simp
  then show ?thesis
    using placeholder_returns [OF k] by (simp add: convert_and_transcribe_def)
qed

lemma digit_chars:
  "char_of (48::nat) = CHR ''0''" "char_of (49::nat) = CHR ''1''" "char_of (50::nat) = CHR ''2''"
  "char_of (51::nat) = CHR ''3''" "char_of (52::nat) = CHR ''4''" "char_of (53::nat) = CHR ''5''"
  "char_of (54::nat) = CHR ''6''" "char_of (55::nat) = CHR ''7''" "char_of (56::nat) = CHR ''8''"
  "char_of (57::nat) = CHR ''9''"
  by code_simp+

text \<open>
  C1. \<^verbatim>\<open>cleanupFile\<close> never lets an exception escape. In both transcription routes,
  once the input file is in place (the video is validated and downloaded, or the upload
  is validated), whatever the outcome of conversion and transcription, the handler
  completes without rejecting: it sends the response for that outcome (the result, or
  the error of the failing stage) and afterwards calls \<^verbatim>\<open>cleanupFile\<close> exactly twice,
  on the raw input path and then on the converted path, and sends nothing further. The
  outcome is taken as given: a pipeline that never resolves (the polling loop is
  unbounded) never reaches the cleanup.
\<close>

theorem cleanup_after_pipeline:
  "fst (cleanupFile filePath w0) = None
   \<and> (play_validate env (b_url body) = Inr (JStr ''yt_video'')
      \<and> acquire env (b_url body) (youtube_audioPath env) (files w) = (None, fs1)
      \<and> convert_and_transcribe env (youtube_audioPath env) (youtube_convertedPath env)
            (b_language body) (w\<lparr>files := fs1\<rparr>) = Some (outcome, w1)
      \<longrightarrow> (\<exists>w' post. transcribe_youtube env body w = Some (None, w')
             \<and> trace w' = trace w1 @ [pipeline_response youtube_prefix outcome] @ post
             \<and> cleanup_calls post = [Some (youtube_audioPath env), Some (youtube_convertedPath env)]
             \<and> responses post = []))
   \<and> (req_file req = Some file
      \<and> validateMediaFile env (up_path file) (up_originalname file) v = Inr info
      \<and> convert_and_transcribe env (up_path file) (file_convertedPath env file)
            (req_language req) v = Some (outcome', v1)
      \<longrightarrow> (\<exists>v' post. transcribe_file env req v = Some (None, v')
             \<and> trace v' = trace v1 @ [pipeline_response upload_prefix outcome'] @ post
             \<and> cleanup_calls post = [Some (up_path file), Some (file_convertedPath env file)]
             \<and> responses post = []))"
proof (intro conjI impI)
  show "fst (cleanupFile filePath w0) = None"
    using cleanupFile_effects [of filePath w0] by auto
next
  assume "play_validate env (b_url body) = Inr (JStr ''yt_video'')
      \<and> acquire env (b_url body) (youtube_audioPath env) (files w) = (None, fs1)
      \<and> convert_and_transcribe env (youtube_audioPath env) (youtube_convertedPath env)
            (b_language body) (w\<lparr>files := fs1\<rparr>) = Some (outcome, w1)"
  then show "\<exists>w' post. transcribe_youtube env body w = Some (None, w')
             \<and> trace w' = trace w1 @ [pipeline_response youtube_prefix outcome] @ post
             \<and> cleanup_calls post = [Some (youtube_audioPath env), Some (youtube_convertedPath env)]
             \<and> responses post = []"
    using youtube_route by blast
next
  assume "req_file req = Some file
      \<and> validateMediaFile env (up_path file) (up_originalname file) v = Inr info
      \<and> convert_and_transcribe env (up_path file) (file_convertedPath env file)
            (req_language req) v = Some (outcome', v1)"
  then show "\<exists>v' post. transcribe_file env req v = Some (None, v')
             \<and> trace v' = trace v1 @ [pipeline_response upload_prefix outcome'] @ post
             \<and> cleanup_calls post = [Some (up_path file), Some (file_convertedPath env file)]
             \<and> responses post = []"
    using file_route by blast
qed

text \<open>
  C1 at a YouTube request and at an upload whose stored file cannot be deleted: the
  failed deletion is logged, the response stays the 200 of the pipeline.
\<close>

theorem cleanup_after_pipeline_witness:
  "(\<exists>w'. transcribe_youtube sample_env sample_body empty_world = Some (None, w')
         \<and> cleanup_calls (trace w') = [Some ''temp_youtube_1730000000000.webm'',
                                        Some ''temp_youtube_1730000000001.wav'']
         \<and> map fst (responses (trace w')) = [200])
   \<and> (\<exists>v'. transcribe_file sample_env sample_request locked_upload = Some (None, v')
         \<and> cleanup_calls (trace v') = [Some ''uploads/1-talk.MP4'',
                                        Some ''uploads/1-talk_converted.wav'']
         \<and> map fst (responses (trace v')) = [200])
   \<and> fst (cleanupFile (Some ''uploads/1-talk.MP4'') locked_upload) = None"
proof -
  have n0: "showNat 1730000000000 = ''1730000000000''"
    by (simp add: showNat.simps digit_chars)
  have n1: "showNat 1730000000001 = ''1730000000001''"
    by (simp add: showNat.simps digit_chars)
  have a: "youtube_audioPath sample_env = ''temp_youtube_1730000000000.webm''"
    by (simp add: youtube_audioPath_def sample_env_def n0)
  have c: "youtube_convertedPath sample_env = ''temp_youtube_1730000000001.wav''"
    by (simp add: youtube_convertedPath_def sample_env_def n1)
  have cw: "endsWith (youtube_convertedPath sample_env) ''.wav''"
    unfolding c by (simp add: endsWith_def)
  have s: "strip_ext ''1-talk.MP4'' (last_dot_ext ''1-talk.MP4'') = ''1-talk''" by code_simp
  have fc: "file_convertedPath sample_env sample_upload = ''uploads/1-talk_converted.wav''"
    by (simp add: file_convertedPath_def sample_env_def sample_upload_def s)
  have up: "up_path sample_upload = ''uploads/1-talk.MP4''"
    by (simp add: sample_upload_def)
  have fw: "endsWith (file_convertedPath sample_env sample_upload) ''.wav''"
    unfolding fc by (simp add: endsWith_def)
  have l: "ascii_lower (last_dot_ext ''talk.MP4'') = ''.mp4''" by code_simp
  have v: "validateMediaFile sample_env (up_path sample_upload) (up_originalname sample_upload)
             locked_upload
           = Inr \<lparr>info_size = 3, info_extension = ''.mp4'', info_name = ''talk.MP4''\<rparr>"
    by (simp add: validateMediaFile_def sample_upload_def locked_upload_def sample_env_def l
          allowedExtensions_def)
  have pv: "play_validate sample_env (b_url sample_body) = Inr (JStr ''yt_video'')"
    by (simp add: sample_env_def)
  have aq: "acquire sample_env (b_url sample_body) (youtube_audioPath sample_env) (files empty_world)
              = (None, [youtube_audioPath sample_env \<mapsto> written])"
    by (simp add: sample_env_def empty_world_def)
  obtain r1 where p1: "convert_and_transcribe sample_env (youtube_audioPath sample_env)
        (youtube_convertedPath sample_env) (b_language sample_body)
        (empty_world\<lparr>files := [youtube_audioPath sample_env \<mapsto> written]\<rparr>)
      = Some (Inr r1,
          \<lparr>files = (files (empty_world\<lparr>files := [youtube_audioPath sample_env \<mapsto> written]\<rparr>))
                      (youtube_convertedPath sample_env \<mapsto> written),
           trace = trace (empty_world\<lparr>files := [youtube_audioPath sample_env \<mapsto> written]\<rparr>)
                     @ [Encode (build_command sample_env (youtube_audioPath sample_env)
                                  (youtube_convertedPath sample_env))]\<rparr>)"
    using sample_pipeline [OF cw] by blast
  obtain r2 where p2: "convert_and_transcribe sample_env (up_path sample_upload)
        (file_convertedPath sample_env sample_upload) (req_language sample_request) locked_upload
      = Some (Inr r2,
          \<lparr>files = (files locked_upload)(file_convertedPath sample_env sample_upload \<mapsto> written),
           trace = trace locked_upload
                     @ [Encode (build_command sample_env (up_path sample_upload)
                                  (file_convertedPath sample_env sample_upload))]\<rparr>)"
    using sample_pipeline [OF fw] by blast
  have rf: "req_file sample_request = Some sample_upload" by (simp add: sample_request_def)
  note t = cleanup_after_pipeline
             [of "Some ''uploads/1-talk.MP4''" locked_upload sample_env sample_body empty_world
                 "[youtube_audioPath sample_env \<mapsto> written]" "Inr r1" _
                 sample_request sample_upload locked_upload _ "Inr r2" _]
  from t have t0: "fst (cleanupFile (Some ''uploads/1-talk.MP4'') locked_upload) = None"
    by (rule conjunct1)
  from t [THEN conjunct2, THEN conjunct1, rule_format, OF conjI [OF pv conjI [OF aq p1]]]
  obtain w' post where y: "transcribe_youtube sample_env sample_body empty_world = Some (None, w')"
      "trace w' = trace empty_world
                    @ [Encode (build_command sample_env (youtube_audioPath sample_env)
                                  (youtube_convertedPath sample_env))]
                    @ [pipeline_response youtube_prefix (Inr r1)] @ post"
      "cleanup_calls post = [Some (youtube_audioPath sample_env), Some (youtube_convertedPath sample_env)]"
      "responses post = []"
    by auto
  from t [THEN conjunct2, THEN conjunct2, rule_format, OF conjI [OF rf conjI [OF v p2]]]
  obtain v' post' where u: "transcribe_file sample_env sample_request locked_upload = Some (None, v')"
      "trace v' = trace locked_upload
                    @ [Encode (build_command sample_env (up_path sample_upload)
                                  (file_convertedPath sample_env sample_upload))]
                    @ [pipeline_response upload_prefix (Inr r2)] @ post'"
      "cleanup_calls post' = [Some (up_path sample_upload), Some (file_convertedPath sample_env sample_upload)]"
      "responses post' = []"
    by auto
  have y1: "cleanup_calls (trace w') = [Some ''temp_youtube_1730000000000.webm'',
                                        Some ''temp_youtube_1730000000001.wav'']"
    unfolding y(2) by (simp add: cleanup_calls_append y(3) a c empty_world_def pipeline_response_def)
  have y2: "map fst (responses (trace w')) = [200]"
    unfolding y(2) by (simp add: responses_append y(4) empty_world_def pipeline_response_def)
  have u1: "cleanup_calls (trace v') = [Some ''uploads/1-talk.MP4'',
                                        Some ''uploads/1-talk_converted.wav'']"
    unfolding u(2)
    by (simp add: cleanup_calls_append u(3) fc up locked_upload_def pipeline_response_def)
  have u2: "map fst (responses (trace v')) = [200]"
    unfolding u(2) by (simp add: responses_append u(4) locked_upload_def pipeline_response_def)
  have Y: "\<exists>w'. transcribe_youtube sample_env sample_body empty_world = Some (None, w')
         \<and> cleanup_calls (trace w') = [Some ''temp_youtube_1730000000000.webm'',
                                        Some ''temp_youtube_1730000000001.wav'']
         \<and> map fst (responses (trace w')) = [200]"
    by (rule exI [of _ w'], intro conjI) (rule y(1) y1 y2)+
  have U: "\<exists>v'. transcribe_file sample_env sample_request locked_upload = Some (None, v')
         \<and> cleanup_calls (trace v') = [Some ''uploads/1-talk.MP4'',
                                        Some ''uploads/1-talk_converted.wav'']
         \<and> map fst (responses (trace v')) = [200]"
    by (rule exI [of _ v'], intro conjI) (rule u(1) u1 u2)+
  from Y U t0 show ?thesis by (intro conjI)
qed

end
